theory Spec2Isabelle
  imports Complex_Main "HOL-Library.Sublist" "HOL-Library.Multiset"
begin

section \<open>JavaScript values\<close>

text \<open>
  A JavaScript number is modelled as a real number or \<open>NaN\<close>. Rounding to double
  precision and the two infinities are left out: every quantity of the program is a
  product or a sum of a distance, a weight and a handful of decimal constants.
  (The rate calculation is given a second time below over numbers that overflow to
  the infinities; the two agree as long as no result reaches the overflow bound.)
  An arithmetic operation with a \<open>NaN\<close> operand (or with an operand that converts
  to \<open>NaN\<close>, such as \<open>undefined\<close>) is \<open>NaN\<close>; a comparison with \<open>NaN\<close> is false.
\<close>

datatype jsnum = Num real | NaN

fun jadd :: "jsnum \<Rightarrow> jsnum \<Rightarrow> jsnum" where
  "jadd (Num a) (Num b) = Num (a + b)"
| "jadd _ _ = NaN"

fun jsub :: "jsnum \<Rightarrow> jsnum \<Rightarrow> jsnum" where
  "jsub (Num a) (Num b) = Num (a - b)"
| "jsub _ _ = NaN"

fun jmul :: "jsnum \<Rightarrow> jsnum \<Rightarrow> jsnum" where
  "jmul (Num a) (Num b) = Num (a * b)"
| "jmul _ _ = NaN"

text \<open>
  The program divides by the constants 100, 541 and 1000 only; a zero divisor
  (an infinity or \<open>NaN\<close> in JavaScript) is given \<open>NaN\<close> here and never occurs.
\<close>

fun jdiv :: "jsnum \<Rightarrow> jsnum \<Rightarrow> jsnum" where
  "jdiv (Num a) (Num b) = (if b = 0 then NaN else Num (a / b))"
| "jdiv _ _ = NaN"

fun jlt :: "jsnum \<Rightarrow> jsnum \<Rightarrow> bool" where
  "jlt (Num a) (Num b) = (a < b)"
| "jlt _ _ = False"

fun jgt :: "jsnum \<Rightarrow> jsnum \<Rightarrow> bool" where
  "jgt (Num a) (Num b) = (a > b)"
| "jgt _ _ = False"

fun jle :: "jsnum \<Rightarrow> jsnum \<Rightarrow> bool" where
  "jle (Num a) (Num b) = (a \<le> b)"
| "jle _ _ = False"

text \<open>\<open>a == b\<close> on numbers: \<open>NaN\<close> equals nothing, not even itself.\<close>

fun jeq :: "jsnum \<Rightarrow> jsnum \<Rightarrow> bool" where
  "jeq (Num a) (Num b) = (a = b)"
| "jeq _ _ = False"

text \<open>\<open>Math.ceil\<close>.\<close>

fun jceil :: "jsnum \<Rightarrow> jsnum" where
  "jceil (Num a) = Num (of_int \<lceil>a\<rceil>)"
| "jceil NaN = NaN"

text \<open>Truthiness of a number: \<open>0\<close> and \<open>NaN\<close> are falsy.\<close>

fun truthy :: "jsnum \<Rightarrow> bool" where
  "truthy (Num a) = (a \<noteq> 0)"
| "truthy NaN = False"

text \<open>What \<open>getDistance\<close> can return: a number, \<open>null\<close> or \<open>undefined\<close>.\<close>

datatype jsval = Number jsnum | Null | Undefined

section \<open>The rate calculation (api/createQuote)\<close>

record breakdown =
  total :: jsnum
  baseRate :: jsnum
  weightFactor :: jsnum
  fuelSurcharge :: jsnum
  equipmentCharge :: jsnum

definition multipliers :: "string \<rightharpoonup> real" where
  "multipliers = [''dry_van'' \<mapsto> 0, ''reefer'' \<mapsto> 0.3, ''flatbed'' \<mapsto> 0.15]"

text \<open>
  \<open>multipliers[equipmentType]\<close> as an operand of \<open>*\<close>: a key that the object does not
  have reads as \<open>undefined\<close> (or as an inherited function, for a name such as
  \<open>toString\<close>), which converts to \<open>NaN\<close>.
\<close>

definition multiplier :: "string \<Rightarrow> jsnum" where
  "multiplier equipmentType =
     (case multipliers equipmentType of Some m \<Rightarrow> Num m | None \<Rightarrow> NaN)"

definition calculateTotal :: "jsnum \<Rightarrow> jsnum \<Rightarrow> string \<Rightarrow> breakdown" where
  "calculateTotal distance weight equipmentType =
     (let avgKmRate = Num 1.616;
          fuelSurchargePercent = (if jlt weight (Num 10000) then Num 0.237 else Num 0.557);
          baseRate = jmul avgKmRate distance;
          weightFactor = (if jgt weight (Num 10000)
                          then jmul (jdiv (jsub weight (Num 10000)) (Num 100)) (Num 0.1)
                          else Num 0);
          equipmentCharge = jmul baseRate (multiplier equipmentType);
          fuelSurcharge = jmul (jadd baseRate equipmentCharge) fuelSurchargePercent
      in \<lparr> total = jadd (jadd (jadd baseRate equipmentCharge) fuelSurcharge) weightFactor,
           baseRate = baseRate,
           weightFactor = weightFactor,
           fuelSurcharge = fuelSurcharge,
           equipmentCharge = equipmentCharge \<rparr>)"

section \<open>The rate calculation with overflow\<close>

text \<open>
  The largest distances leave the range of the doubles: a product or a sum whose
  magnitude reaches \<open>2^1024 - 2^970\<close> rounds to an infinity, and \<open>Infinity * 0\<close> is
  \<open>NaN\<close>. Here the numbers keep the two infinities (\<open>Infinity True\<close> is the positive
  one) and every arithmetic result that reaches the bound becomes infinite; the
  rounding of the results that stay finite and the sign of zero are left out as
  before. \<open>calculateTotal_d\<close> is \<open>calculateTotal\<close> over these numbers.
\<close>

datatype dnum = Fin real | Infinity bool | DNaN

definition overflow_bound :: real where
  "overflow_bound = 2 ^ 1024 - 2 ^ 970"

definition finite_or_infinite :: "real \<Rightarrow> dnum" where
  "finite_or_infinite r =
     (if overflow_bound \<le> r then Infinity True
      else if r \<le> - overflow_bound then Infinity False
      else Fin r)"

text \<open>The operators \<open>+\<close>, \<open>-\<close>, \<open>*\<close>, \<open>/\<close>, \<open><\<close>, \<open>>\<close> and \<open>==\<close>.\<close>

fun dadd :: "dnum \<Rightarrow> dnum \<Rightarrow> dnum" where
  "dadd (Fin a) (Fin b) = finite_or_infinite (a + b)"
| "dadd (Infinity s) (Fin b) = Infinity s"
| "dadd (Fin a) (Infinity t) = Infinity t"
| "dadd (Infinity s) (Infinity t) = (if s = t then Infinity s else DNaN)"
| "dadd _ _ = DNaN"

fun dsub :: "dnum \<Rightarrow> dnum \<Rightarrow> dnum" where
  "dsub (Fin a) (Fin b) = finite_or_infinite (a - b)"
| "dsub (Infinity s) (Fin b) = Infinity s"
| "dsub (Fin a) (Infinity t) = Infinity (\<not> t)"
| "dsub (Infinity s) (Infinity t) = (if s = t then DNaN else Infinity s)"
| "dsub _ _ = DNaN"

fun dmul :: "dnum \<Rightarrow> dnum \<Rightarrow> dnum" where
  "dmul (Fin a) (Fin b) = finite_or_infinite (a * b)"
| "dmul (Infinity s) (Fin b) = (if b = 0 then DNaN else Infinity (s = (0 < b)))"
| "dmul (Fin a) (Infinity t) = (if a = 0 then DNaN else Infinity (t = (0 < a)))"
| "dmul (Infinity s) (Infinity t) = Infinity (s = t)"
| "dmul _ _ = DNaN"

fun ddiv :: "dnum \<Rightarrow> dnum \<Rightarrow> dnum" where
  "ddiv (Fin a) (Fin b) =
     (if b = 0 then (if a = 0 then DNaN else Infinity (0 < a)) else finite_or_infinite (a / b))"
| "ddiv (Infinity s) (Fin b) = Infinity (s = (0 \<le> b))"
| "ddiv (Fin a) (Infinity t) = Fin 0"
| "ddiv _ _ = DNaN"

fun dlt :: "dnum \<Rightarrow> dnum \<Rightarrow> bool" where
  "dlt (Fin a) (Fin b) = (a < b)"
| "dlt (Fin a) (Infinity t) = t"
| "dlt (Infinity s) (Fin b) = (\<not> s)"
| "dlt (Infinity s) (Infinity t) = (\<not> s \<and> t)"
| "dlt _ _ = False"

fun dgt :: "dnum \<Rightarrow> dnum \<Rightarrow> bool" where
  "dgt a b = dlt b a"


record breakdown_d =
  total_d :: dnum
  baseRate_d :: dnum
  weightFactor_d :: dnum
  fuelSurcharge_d :: dnum
  equipmentCharge_d :: dnum

definition multiplier_d :: "string \<Rightarrow> dnum" where
  "multiplier_d equipmentType =
     (case multipliers equipmentType of Some m \<Rightarrow> Fin m | None \<Rightarrow> DNaN)"

definition calculateTotal_d :: "dnum \<Rightarrow> dnum \<Rightarrow> string \<Rightarrow> breakdown_d" where
  "calculateTotal_d distance weight equipmentType =
     (let avgKmRate = Fin 1.616;
          fuelSurchargePercent = (if dlt weight (Fin 10000) then Fin 0.237 else Fin 0.557);
          baseRate = dmul avgKmRate distance;
          weightFactor = (if dgt weight (Fin 10000)
                          then dmul (ddiv (dsub weight (Fin 10000)) (Fin 100)) (Fin 0.1)
                          else Fin 0);
          equipmentCharge = dmul baseRate (multiplier_d equipmentType);
          fuelSurcharge = dmul (dadd baseRate equipmentCharge) fuelSurchargePercent
      in \<lparr> total_d = dadd (dadd (dadd baseRate equipmentCharge) fuelSurcharge) weightFactor,
           baseRate_d = baseRate,
           weightFactor_d = weightFactor,
           fuelSurcharge_d = fuelSurcharge,
           equipmentCharge_d = equipmentCharge \<rparr>)"


text \<open>The numbers of the first reading among the numbers with overflow.\<close>

fun dnum_of :: "jsnum \<Rightarrow> dnum" where
  "dnum_of (Num a) = Fin a"
| "dnum_of NaN = DNaN"

section \<open>Quotes and the distance lookup\<close>

text \<open>
  The answer of the Distance Matrix service to one request: the element's status is
  \<open>ZERO_RESULTS\<close>, or the element carries a distance in metres, or the request
  fails (the fetch rejects, the body is not JSON, or the element has no distance),
  in which case the promise chain of \<open>getDistance\<close> rejects.
\<close>

datatype matrix_reply = ZERO_RESULTS | Metres real | Rejected

text \<open>
  \<open>getDistance\<close> issues one request and returns kilometres, \<open>null\<close> when there is
  no route, and \<open>undefined\<close> when the chain rejected: its \<open>catch\<close> handler logs the
  error and returns nothing. The first component is the log of the requests made.
\<close>

definition getDistance ::
  "(string \<Rightarrow> string \<Rightarrow> matrix_reply) \<Rightarrow> string \<Rightarrow> string \<Rightarrow> (string \<times> string) list \<times> jsval" where
  "getDistance matrix origin destination =
     ([(origin, destination)],
      (case matrix origin destination of
         ZERO_RESULTS \<Rightarrow> Null
       | Metres metres \<Rightarrow> Number (jdiv (Num metres) (Num 1000))
       | Rejected \<Rightarrow> Undefined))"

text \<open>The duration written into the quote; \<open>maximumDayTravel\<close> is 541.\<close>

definition maximumDayTravel :: jsnum where
  "maximumDayTravel = Num 541"

definition quote_days :: "jsnum \<Rightarrow> jsnum" where
  "quote_days distance =
     (if jeq distance (Num 0) then Num 1 else jceil (jdiv distance maximumDayTravel))"

text \<open>
  A quote is the request's fields, the distance, the duration and the spread
  breakdown of \<open>calculateTotal\<close>. \<open>pickupDate\<close> stays the string of the date input.
\<close>

record quote = breakdown +
  origin :: string
  destination :: string
  equipmentType :: string
  weight :: jsnum
  pickupDate :: string
  distance :: jsnum
  days :: jsnum

text \<open>
  The request of the handler: the method and the fields read from the body. The
  weight is a JSON number (\<open>NaN\<close> stands for \<open>null\<close>, which is what \<open>JSON.stringify\<close>
  makes of \<open>NaN\<close>, and is falsy as well); on a number \<open>parseFloat\<close> is the identity.
  \<open>cacheDistance\<close> is \<open>None\<close> for \<open>null\<close> and otherwise the number that
  \<open>parseFloat\<close> reads from the string sent.
\<close>

record request =
  req_method :: string
  req_origin :: string
  req_destination :: string
  req_equipmentType :: string
  req_weight :: jsnum
  req_pickupDate :: string
  req_cacheDistance :: "jsnum option"

text \<open>
  The answer: a status with an error message, or (status 201) the quote. The JSON of
  a quote writes \<open>null\<close> for \<open>NaN\<close>; the page treats both alike (falsy), so the quote is
  passed on as it is.
\<close>

datatype response = ErrorJson nat string | QuoteJson quote

text \<open>The quote of an answer, if it carries one.\<close>

fun quote_of :: "response \<Rightarrow> quote option" where
  "quote_of (QuoteJson q) = Some q"
| "quote_of (ErrorJson code err) = None"

text \<open>
  The handler. \<open>distance == null\<close> holds for \<open>null\<close> and for \<open>undefined\<close> alike.
  Nothing in its \<open>try\<close> block throws (\<open>getDistance\<close> catches its own errors), so
  the status 500 of the \<open>catch\<close> block has no branch here.
\<close>

definition handler ::
  "(string \<Rightarrow> string \<Rightarrow> matrix_reply) \<Rightarrow> request \<Rightarrow> (string \<times> string) list \<times> response" where
  "handler matrix req =
     (if req_method req \<noteq> ''POST'' then ([], ErrorJson 405 ''Method not allowed.'')
      else if req_origin req = [] \<or> req_destination req = [] \<or> req_equipmentType req = []
              \<or> \<not> truthy (req_weight req) \<or> req_pickupDate req = []
        then ([], ErrorJson 400 ''All fields are required.'')
      else
        let (calls, dist) =
              (case req_cacheDistance req of
                 None \<Rightarrow> getDistance matrix (req_origin req) (req_destination req)
               | Some c \<Rightarrow> ([], Number c))
        in (case dist of
              Number d \<Rightarrow>
                (let b = calculateTotal d (req_weight req) (req_equipmentType req)
                 in (calls, QuoteJson
                      \<lparr> total = total b, baseRate = baseRate b, weightFactor = weightFactor b,
                        fuelSurcharge = fuelSurcharge b, equipmentCharge = equipmentCharge b,
                        origin = req_origin req, destination = req_destination req,
                        equipmentType = req_equipmentType req, weight = req_weight req,
                        pickupDate = req_pickupDate req, distance = d,
                        days = quote_days d \<rparr>))
            | _ \<Rightarrow>
                (calls, ErrorJson 400
                   (''No route between '' @ req_origin req @ '' and '' @ req_destination req
                      @ '' available.''))))"

section \<open>The page (pages/index.js)\<close>

text \<open>
  \<open>sortQuotes\<close> subtracts two \<open>Date\<close> objects, that is their time values. The time
  value of a date string is a parameter \<open>timeValue\<close> of the model; the date input of
  the form yields valid dates only, so it is a number (never \<open>NaN\<close>).
\<close>

definition sortQuotes :: "(string \<Rightarrow> int) \<Rightarrow> quote \<Rightarrow> quote \<Rightarrow> int" where
  "sortQuotes timeValue a b = timeValue (pickupDate a) - timeValue (pickupDate b)"

text \<open>
  \<open>Array.prototype.sort\<close> is stable: with a consistent comparator its result is the
  stable insertion sort, where an element goes before the first one it does not
  follow (\<open>cmp x y \<le> 0\<close>).
\<close>

fun insert_cmp :: "('a \<Rightarrow> 'a \<Rightarrow> int) \<Rightarrow> 'a \<Rightarrow> 'a list \<Rightarrow> 'a list" where
  "insert_cmp cmp x [] = [x]"
| "insert_cmp cmp x (y # ys) =
     (if cmp x y \<le> 0 then x # y # ys else y # insert_cmp cmp x ys)"

definition array_sort :: "('a \<Rightarrow> 'a \<Rightarrow> int) \<Rightarrow> 'a list \<Rightarrow> 'a list" where
  "array_sort cmp xs = foldr (insert_cmp cmp) xs []"

text \<open>
  \<open>xs.slice(start, end)\<close> and \<open>xs.splice(index, 1)\<close> (the list that remains), with
  the clamping of negative and too large indices that JavaScript does.
\<close>

definition relative_index :: "int \<Rightarrow> int \<Rightarrow> int" where
  "relative_index len i = (if i < 0 then max (len + i) 0 else min i len)"

definition slice :: "int \<Rightarrow> int \<Rightarrow> 'a list \<Rightarrow> 'a list" where
  "slice first final xs =
     (let len = int (length xs);
          k = relative_index len first;
          e = relative_index len final
      in take (nat (e - k)) (drop (nat k) xs))"

definition splice1 :: "int \<Rightarrow> 'a list \<Rightarrow> 'a list" where
  "splice1 index xs =
     (let len = int (length xs);
          k = relative_index len index;
          deleteCount = min 1 (len - k)
      in take (nat k) xs @ drop (nat (k + deleteCount)) xs)"

text \<open>\<open>toLowerCase\<close> (on ASCII letters) and \<open>String.prototype.includes\<close>.\<close>

definition lower_char :: "char \<Rightarrow> char" where
  "lower_char c =
     (case map_of (zip ''ABCDEFGHIJKLMNOPQRSTUVWXYZ'' ''abcdefghijklmnopqrstuvwxyz'') c of
        Some l \<Rightarrow> l
      | None \<Rightarrow> c)"

definition toLowerCase :: "string \<Rightarrow> string" where
  "toLowerCase s = map lower_char s"

fun includes_str :: "string \<Rightarrow> string \<Rightarrow> bool" where
  "includes_str [] sub = (sub = [])"
| "includes_str (c # cs) sub = (prefix sub (c # cs) \<or> includes_str cs sub)"

record filter_values =
  filter_origin :: string
  filter_equipment :: string
  filter_destination :: string

text \<open>
  The state of the page that the ledger operations read and write, and the two
  kinds of entries of \<open>localStorage\<close>: the ledger under the key \<open>quotes\<close>, and the
  distances under the keys \<open>origin-destination\<close>, which always contain a hyphen and
  so never are the key \<open>quotes\<close>. A stored distance is kept as the number that
  \<open>parseFloat\<close> reads back from its string.
\<close>

record home =
  form_origin :: string
  form_destination :: string
  form_equipmentType :: string
  form_weight :: string
  form_pickupDate :: string
  shown_quote :: "quote option"
  quotes :: "quote list"
  filters :: filter_values
  loading :: bool
  errorMessage :: string
  originInputValue :: string
  destinationInputValue :: string
  stored_quotes :: "quote list option"
  stored_distances :: "string \<rightharpoonup> jsnum"

definition cache_key :: "string \<Rightarrow> string \<Rightarrow> string" where
  "cache_key a b = a @ ''-'' @ b"

text \<open>The effect that runs once on load: the stored ledger, sorted, becomes the ledger.\<close>

definition loadQuotes :: "(string \<Rightarrow> int) \<Rightarrow> home \<Rightarrow> home" where
  "loadQuotes timeValue s =
     (case stored_quotes s of
        None \<Rightarrow> s
      | Some storedQuotes \<Rightarrow> s\<lparr>quotes := array_sort (sortQuotes timeValue) storedQuotes\<rparr>)"

definition deleteQuote :: "int \<Rightarrow> home \<Rightarrow> home" where
  "deleteQuote index s =
     (let savedQuotes = splice1 index (quotes s)
      in s\<lparr>quotes := savedQuotes, stored_quotes := Some savedQuotes\<rparr>)"

text \<open>The new ledger of \<open>handleCreateQuote\<close>: \<open>[data.quote, ...quotes].sort(sortQuotes)\<close>.\<close>

definition updatedQuotes :: "(string \<Rightarrow> int) \<Rightarrow> quote \<Rightarrow> quote list \<Rightarrow> quote list" where
  "updatedQuotes timeValue q qs = array_sort (sortQuotes timeValue) (q # qs)"

text \<open>
  \<open>handleCreateQuote\<close>. \<open>parseFloat\<close> on the text of the weight input is a parameter.
  The request goes to \<open>handler\<close> and its answer comes back (a fetch of the page's own
  API that fails, the case of the \<open>catch\<close> block, is left out); the log of the
  distance requests made in the course of the call is returned with the new state.
  \<open>response.ok\<close> holds for the quote answer (status 201) only.
\<close>

definition handleCreateQuote ::
  "(string \<Rightarrow> jsnum) \<Rightarrow> (string \<Rightarrow> int) \<Rightarrow> (string \<Rightarrow> string \<Rightarrow> matrix_reply) \<Rightarrow> home
     \<Rightarrow> (string \<times> string) list \<times> home" where
  "handleCreateQuote parseFloat timeValue matrix s0 =
     (let s = s0\<lparr>errorMessage := []\<rparr> in
      if form_origin s = [] \<or> form_destination s = [] \<or> form_equipmentType s = []
         \<or> form_weight s = [] \<or> form_pickupDate s = []
      then ([], s\<lparr>errorMessage := ''Please fill in all required fields.''\<rparr>)
      else if jle (parseFloat (form_weight s)) (Num 0)
      then ([], s\<lparr>errorMessage := ''Invalid weight value.''\<rparr>)
      else if form_origin s \<noteq> originInputValue s \<or> form_destination s \<noteq> destinationInputValue s
      then ([], s\<lparr>errorMessage := ''Invalid locations, please select from dropdown.''\<rparr>)
      else
        let s1 = s\<lparr>loading := True, shown_quote := None\<rparr>;
            weightInt = parseFloat (form_weight s1);
            cacheDistance = stored_distances s1 (cache_key (form_origin s1) (form_destination s1));
            (calls, resp) = handler matrix
               \<lparr> req_method = ''POST'', req_origin = form_origin s1,
                 req_destination = form_destination s1,
                 req_equipmentType = form_equipmentType s1, req_weight = weightInt,
                 req_pickupDate = form_pickupDate s1, req_cacheDistance = cacheDistance \<rparr>
        in (case resp of
              ErrorJson code err \<Rightarrow>
                (calls, s1\<lparr>errorMessage :=
                            (if err = [] then ''Failed to create quote. Server returned an error.''
                             else err),
                          loading := False\<rparr>)
            | QuoteJson q \<Rightarrow>
                (let dist = distance q;
                     s2 = (if cacheDistance = None \<and> truthy dist
                           then s1\<lparr>stored_distances := (stored_distances s1)
                                   (cache_key (form_origin s1) (form_destination s1) \<mapsto> dist,
                                    cache_key (form_destination s1) (form_origin s1) \<mapsto> dist)\<rparr>
                           else s1);
                     updated = updatedQuotes timeValue q (quotes s2)
                 in (calls, s2\<lparr>stored_quotes := Some updated, shown_quote := Some q,
                               quotes := updated, loading := False\<rparr>))))"

text \<open>
  The form passes the three checks of \<open>handleCreateQuote\<close>: every field is filled in,
  the weight parses to a number above zero, and the selected places are the texts of
  the two inputs.
\<close>

definition valid_form :: "(string \<Rightarrow> jsnum) \<Rightarrow> home \<Rightarrow> bool" where
  "valid_form parseFloat s \<longleftrightarrow>
     form_origin s \<noteq> [] \<and> form_destination s \<noteq> [] \<and> form_equipmentType s \<noteq> []
     \<and> form_weight s \<noteq> [] \<and> form_pickupDate s \<noteq> []
     \<and> jgt (parseFloat (form_weight s)) (Num 0)
     \<and> form_origin s = originInputValue s \<and> form_destination s = destinationInputValue s"

text \<open>The user selects the two places the other way round (both autocomplete inputs).\<close>

definition reverse_route :: "home \<Rightarrow> home" where
  "reverse_route s =
     s\<lparr> form_origin := form_destination s, form_destination := form_origin s,
        originInputValue := destinationInputValue s, destinationInputValue := originInputValue s \<rparr>"

text \<open>The quotes that pass the filters; the page hands them to the history view.\<close>

definition filteredQuotes :: "home \<Rightarrow> quote list" where
  "filteredQuotes s =
     filter (\<lambda>q.
        (length (filter_origin (filters s)) = 0
           \<or> (origin q \<noteq> [] \<and> includes_str (toLowerCase (origin q)) (toLowerCase (filter_origin (filters s)))))
      \<and> (length (filter_destination (filters s)) = 0
           \<or> (destination q \<noteq> []
               \<and> includes_str (toLowerCase (destination q)) (toLowerCase (filter_destination (filters s)))))
      \<and> (length (filter_equipment (filters s)) = 0 \<or> equipmentType q = filter_equipment (filters s)))
     (quotes s)"

section \<open>The history view (components/QuoteHistory.js)\<close>

record history =
  expandedIndex :: "int option"
  currentPage :: int

definition itemsPerPage :: int where
  "itemsPerPage = 5"

definition startIndex :: "history \<Rightarrow> int" where
  "startIndex h = (currentPage h - 1) * itemsPerPage"

definition endIndex :: "history \<Rightarrow> int" where
  "endIndex h = startIndex h + itemsPerPage"

text \<open>The component gets the filtered quotes as its \<open>quotes\<close> and shows one page.\<close>

definition currentQuotes :: "home \<Rightarrow> history \<Rightarrow> quote list" where
  "currentQuotes s h = slice (startIndex h) (endIndex h) (filteredQuotes s)"

text \<open>
  The click handler of the delete button of the card at position \<open>i\<close> of
  \<open>currentQuotes.map\<close>: the index it passes to \<open>deleteQuote\<close> is \<open>i + startIndex\<close>.
\<close>

definition delete_onClick :: "int \<Rightarrow> home \<times> history \<Rightarrow> home \<times> history" where
  "delete_onClick i sh =
     (let s = fst sh; h = snd sh;
          index = i + startIndex h;
          changePage = (length (currentQuotes s h) = 1);
          s' = deleteQuote index s;
          h1 = (if Some index = expandedIndex h then h\<lparr>expandedIndex := None\<rparr> else h);
          h2 = (if changePage then h1\<lparr>currentPage := max 1 (currentPage h - 1)\<rparr> else h1)
      in (s', h2))"

section \<open>Sample inputs\<close>

text \<open>
  A time value for the sample dates: the digits of the string read as one decimal
  number, which orders the dates \<open>yyyy-mm-dd\<close> of the date input as their time
  values do. \<open>parse_weight\<close> is \<open>parseFloat\<close> on the sample weights, strings of
  decimal digits with an optional sign.
\<close>

definition digit_of :: "char \<Rightarrow> int option" where
  "digit_of c =
     (let n = (of_char c :: nat) in if 48 \<le> n \<and> n \<le> 57 then Some (int n - 48) else None)"

definition ymd_number :: "string \<Rightarrow> int" where
  "ymd_number s = foldl (\<lambda>n c. case digit_of c of Some k \<Rightarrow> 10 * n + k | None \<Rightarrow> n) 0 s"

definition parse_digits :: "string \<Rightarrow> jsnum" where
  "parse_digits s =
     (if s \<noteq> [] \<and> list_all (\<lambda>c. digit_of c \<noteq> None) s then Num (of_int (ymd_number s)) else NaN)"

definition parse_weight :: "string \<Rightarrow> jsnum" where
  "parse_weight s =
     (case s of
        [] \<Rightarrow> NaN
      | c # cs \<Rightarrow> if c = CHR ''-'' then jsub (Num 0) (parse_digits cs) else parse_digits s)"

text \<open>A Distance Matrix service that gives every request the same answer.\<close>

definition always :: "matrix_reply \<Rightarrow> string \<Rightarrow> string \<Rightarrow> matrix_reply" where
  "always r a b = r"

definition quote_A :: quote where
  "quote_A =
     \<lparr> total = Num 199.8992, baseRate = Num 161.6, weightFactor = Num 0,
       fuelSurcharge = Num 38.2992, equipmentCharge = Num 0,
       origin = ''Toronto'', destination = ''Ottawa'', equipmentType = ''dry_van'',
       weight = Num 5000, pickupDate = ''2025-01-01'', distance = Num 100, days = Num 1 \<rparr>"

definition quote_B :: quote where
  "quote_B = quote_A\<lparr>origin := ''Montreal''\<rparr>"

definition quote_C :: quote where
  "quote_C = quote_A\<lparr>pickupDate := ''2025-01-02''\<rparr>"

definition quote_D :: quote where
  "quote_D = quote_A\<lparr>pickupDate := ''2024-12-31''\<rparr>"

definition sample_request :: request where
  "sample_request =
     \<lparr> req_method = ''POST'', req_origin = ''Toronto'', req_destination = ''Montreal'',
       req_equipmentType = ''dry_van'', req_weight = Num 5000,
       req_pickupDate = ''2025-01-01'', req_cacheDistance = None \<rparr>"

definition sample_home :: home where
  "sample_home =
     \<lparr> form_origin = ''Toronto'', form_destination = ''Montreal'',
       form_equipmentType = ''dry_van'', form_weight = ''5000'',
       form_pickupDate = ''2025-01-01'', shown_quote = None,
       quotes = [quote_A, quote_B],
       filters = \<lparr> filter_origin = ''mont'', filter_equipment = [], filter_destination = [] \<rparr>,
       loading = False, errorMessage = [],
       originInputValue = ''Toronto'', destinationInputValue = ''Montreal'',
       stored_quotes = Some [quote_A, quote_B], stored_distances = Map.empty \<rparr>"

definition sample_history :: history where
  "sample_history = \<lparr> expandedIndex = None, currentPage = 1 \<rparr>"

section \<open>Facts about the rate calculation\<close>

lemma multiplier_recognised:
  "multiplier ''dry_van'' = Num 0"
  "multiplier ''reefer'' = Num 0.3"
  "multiplier ''flatbed'' = Num 0.15"
  by (simp_all add: multiplier_def multipliers_def)

lemma overflow_bound_pos: "0 < overflow_bound"
  by (simp add: overflow_bound_def)








lemma multiplier_d_recognised:
  "multiplier_d ''dry_van'' = Fin 0"
  "multiplier_d ''reefer'' = Fin 0.3"
  "multiplier_d ''flatbed'' = Fin 0.15"
  by (simp_all add: multiplier_d_def multipliers_def)






text \<open>
  Below the overflow bound the two readings of the rate calculation agree: for a
  distance \<open>d \<ge> 0\<close> and a weight \<open>w > 0\<close> with \<open>4 d + w\<close> under the bound, no result
  of \<open>calculateTotal_d\<close> overflows and its breakdown is that of \<open>calculateTotal\<close>.
\<close>

lemma finite_below_bound:
  "0 \<le> r \<Longrightarrow> r < overflow_bound \<Longrightarrow> finite_or_infinite r = Fin r"
  using overflow_bound_pos by (simp add: finite_or_infinite_def)

lemma multipliers_cases:
  "multipliers e = None \<or> e = ''dry_van'' \<or> e = ''reefer'' \<or> e = ''flatbed''"
  by (simp add: multipliers_def)

lemma calculateTotal_d_below_bound:
  assumes "0 \<le> d" and "0 < w" and "4 * d + w < overflow_bound"
  shows "calculateTotal_d (Fin d) (Fin w) e
           = \<lparr> total_d = dnum_of (total (calculateTotal (Num d) (Num w) e)),
               baseRate_d = dnum_of (baseRate (calculateTotal (Num d) (Num w) e)),
               weightFactor_d = dnum_of (weightFactor (calculateTotal (Num d) (Num w) e)),
               fuelSurcharge_d = dnum_of (fuelSurcharge (calculateTotal (Num d) (Num w) e)),
               equipmentCharge_d = dnum_of (equipmentCharge (calculateTotal (Num d) (Num w) e)) \<rparr>"
  using multipliers_cases [of e]
proof (elim disjE)
  assume "multipliers e = None"
  then show ?thesis
    using assms
    by (auto simp: calculateTotal_d_def calculateTotal_def Let_def finite_below_bound
        multiplier_def multiplier_d_def)
next
  assume "e = ''dry_van''"
  then show ?thesis
    using assms
    by (auto simp: calculateTotal_d_def calculateTotal_def Let_def finite_below_bound
        multiplier_recognised multiplier_d_recognised intro!: finite_below_bound;
        argo)
next
  assume "e = ''reefer''"
  then show ?thesis
    using assms
    by (auto simp: calculateTotal_d_def calculateTotal_def Let_def finite_below_bound
        multiplier_recognised multiplier_d_recognised intro!: finite_below_bound;
        argo)
next
  assume "e = ''flatbed''"
  then show ?thesis
    using assms
    by (auto simp: calculateTotal_d_def calculateTotal_def Let_def finite_below_bound
        multiplier_recognised multiplier_d_recognised intro!: finite_below_bound;
        argo)
qed




text \<open>
  C5, as amended. \<open>calculateTotal\<close> uses the stated constants and steps: the base
  rate is \<open>1.616 \<times> distance\<close>; the multipliers are 0, 0.30 and 0.15; the equipment
  charge is the base rate times the multiplier; the fuel surcharge is base rate plus
  equipment charge, times 0.237 below 10000 lb and 0.557 from 10000 lb on; the weight
  factor is \<open>max(0, weight - 10000) / 100 \<times> 0.10\<close>, zero at exactly 10000 lb. For
  100 km, 15000 lb and a reefer that gives base rate 161.6, equipment charge 48.48,
  fuel surcharge 117.01456, weight factor 5 and total 332.09456.
\<close>

theorem calculateTotal_steps:
  "baseRate (calculateTotal (Num d) (Num w) e) = Num (1.616 * d)
   \<and> multipliers ''dry_van'' = Some 0 \<and> multipliers ''reefer'' = Some 0.3
   \<and> multipliers ''flatbed'' = Some 0.15
   \<and> (multipliers e = Some m \<longrightarrow>
        equipmentCharge (calculateTotal (Num d) (Num w) e) = Num (1.616 * d * m)
        \<and> fuelSurcharge (calculateTotal (Num d) (Num w) e)
            = Num ((1.616 * d + 1.616 * d * m) * (if w < 10000 then 0.237 else 0.557))
        \<and> total (calculateTotal (Num d) (Num w) e)
            = Num (1.616 * d + 1.616 * d * m
                   + (1.616 * d + 1.616 * d * m) * (if w < 10000 then 0.237 else 0.557)
                   + max 0 (w - 10000) / 100 * 0.10))
   \<and> weightFactor (calculateTotal (Num d) (Num w) e) = Num (max 0 (w - 10000) / 100 * 0.10)
   \<and> (multipliers e = Some m \<longrightarrow>
        fuelSurcharge (calculateTotal (Num d) (Num 10000) e)
            = Num ((1.616 * d + 1.616 * d * m) * 0.557))
   \<and> weightFactor (calculateTotal (Num d) (Num 10000) e) = Num 0
   \<and> calculateTotal (Num 100) (Num 15000) ''reefer''
       = \<lparr> total = Num 332.09456, baseRate = Num 161.6, weightFactor = Num 5,
            fuelSurcharge = Num 117.01456, equipmentCharge = Num 48.48 \<rparr>"
  by (simp add: calculateTotal_def Let_def multiplier_def multipliers_def max_def)

theorem calculateTotal_steps_witness:
  "multipliers ''flatbed'' = Some 0.15
   \<and> equipmentCharge (calculateTotal (Num 200) (Num 12000) ''flatbed'') = Num 48.48
   \<and> fuelSurcharge (calculateTotal (Num 200) (Num 12000) ''flatbed'') = Num 207.02576
   \<and> total (calculateTotal (Num 200) (Num 12000) ''flatbed'') = Num 580.70576
   \<and> fuelSurcharge (calculateTotal (Num 200) (Num 10000) ''flatbed'') = Num 207.02576"
  using calculateTotal_steps [of 200 12000 "''flatbed''" "0.15"]
  by (simp add: multipliers_def)

text \<open>
  C5 as stated fails at its own example: for 100 km, 15000 lb and a reefer the
  breakdown is not the one with fuel surcharge 117.02896 and total 332.10896
  (\<open>(161.6 + 48.48) \<times> 0.557\<close> is 117.01456).
\<close>

theorem reefer_example_counterexample:
  "calculateTotal (Num 100) (Num 15000) ''reefer''
     \<noteq> \<lparr> total = Num 332.10896, baseRate = Num 161.6, weightFactor = Num 5,
          fuelSurcharge = Num 117.02896, equipmentCharge = Num 48.48 \<rparr>"
  by (simp add: calculateTotal_def Let_def multiplier_recognised)




section \<open>Facts about the handler\<close>

text \<open>
  C9. For every distance \<open>d \<ge> 0\<close> the duration is 1 day if \<open>d = 0\<close> and
  \<open>ceil(d / 541)\<close> days otherwise: 1 for 0 km, 1 for 541 km, 2 for 542 km; and this is
  the \<open>days\<close> of every quote the handler returns.
\<close>

theorem quote_days_rule:
  "(0 \<le> d \<longrightarrow> quote_days (Num d) = Num (if d = 0 then 1 else of_int \<lceil>d / 541\<rceil>))
   \<and> quote_days (Num 0) = Num 1 \<and> quote_days (Num 541) = Num 1 \<and> quote_days (Num 542) = Num 2
   \<and> (handler matrix req = (calls, QuoteJson q) \<longrightarrow> days q = quote_days (distance q))"
proof -
  have "days q = quote_days (distance q)" if "handler matrix req = (calls, QuoteJson q)"
    using that
    by (auto simp: handler_def Let_def split: if_splits prod.splits jsval.splits)
  then show ?thesis
    by (simp add: quote_days_def maximumDayTravel_def)
qed

theorem quote_days_rule_witness:
  "(0::real) \<le> 1000 \<and> quote_days (Num 1000) = Num 2
   \<and> handler (always (Metres 1000000)) sample_request
       = ([(''Toronto'', ''Montreal'')],
          QuoteJson \<lparr> total = Num 1998.992, baseRate = Num 1616, weightFactor = Num 0,
                      fuelSurcharge = Num 382.992, equipmentCharge = Num 0,
                      origin = ''Toronto'', destination = ''Montreal'',
                      equipmentType = ''dry_van'', weight = Num 5000,
                      pickupDate = ''2025-01-01'', distance = Num 1000, days = Num 2 \<rparr>)"
  using quote_days_rule [of 1000 "always (Metres 1000000)" sample_request
        "[(''Toronto'', ''Montreal'')]"
        "\<lparr> total = Num 1998.992, baseRate = Num 1616, weightFactor = Num 0,
                      fuelSurcharge = Num 382.992, equipmentCharge = Num 0,
                      origin = ''Toronto'', destination = ''Montreal'',
                      equipmentType = ''dry_van'', weight = Num 5000,
                      pickupDate = ''2025-01-01'', distance = Num 1000, days = Num 2 \<rparr>"]
  by (simp add: handler_def getDistance_def calculateTotal_def Let_def sample_request_def always_def
        multiplier_def multipliers_def quote_days_def maximumDayTravel_def)

section \<open>Facts about creating a quote\<close>

lemma positive_weight:
  "jgt x (Num 0) \<Longrightarrow> \<not> jle x (Num 0) \<and> truthy x"
  by (cases x) simp_all

lemma weight_not_positive:
  "\<not> jgt x (Num 0) \<Longrightarrow> jle x (Num 0) \<or> \<not> truthy x"
  by (cases x) auto

lemma valid_formD:
  assumes "valid_form pf s"
  shows "form_origin s \<noteq> []" "form_destination s \<noteq> []" "form_equipmentType s \<noteq> []"
    "form_weight s \<noteq> []" "form_pickupDate s \<noteq> []"
    "jgt (pf (form_weight s)) (Num 0)"
    "\<not> jle (pf (form_weight s)) (Num 0)" "truthy (pf (form_weight s))"
    "originInputValue s = form_origin s" "destinationInputValue s = form_destination s"
  using assms positive_weight [of "pf (form_weight s)"] by (auto simp: valid_form_def)

text \<open>A valid form, no cached distance, and a reply in metres.\<close>

lemma create_with_lookup:
  assumes v: "valid_form pf s"
    and c: "stored_distances s (cache_key (form_origin s) (form_destination s)) = None"
    and m: "matrix (form_origin s) (form_destination s) = Metres m"
  shows "fst (handleCreateQuote pf tv matrix s) = [(form_origin s, form_destination s)]"
    and "stored_distances (snd (handleCreateQuote pf tv matrix s)) =
           (if m = 0 then stored_distances s
            else (stored_distances s)
                   (cache_key (form_origin s) (form_destination s) \<mapsto> Num (m / 1000),
                    cache_key (form_destination s) (form_origin s) \<mapsto> Num (m / 1000)))"
    and "\<exists>q. shown_quote (snd (handleCreateQuote pf tv matrix s)) = Some q
             \<and> distance q = Num (m / 1000)"
    and "valid_form pf (snd (handleCreateQuote pf tv matrix s))"
    and "form_origin (snd (handleCreateQuote pf tv matrix s)) = form_origin s"
    and "form_destination (snd (handleCreateQuote pf tv matrix s)) = form_destination s"
  using c m valid_formD [OF v]
  by (simp_all add: valid_form_def handleCreateQuote_def handler_def getDistance_def Let_def)

text \<open>A valid form and a cached distance.\<close>

lemma create_with_cache:
  assumes v: "valid_form pf s"
    and c: "stored_distances s (cache_key (form_origin s) (form_destination s)) = Some c"
  shows "fst (handleCreateQuote pf tv matrix s) = []"
    and "stored_distances (snd (handleCreateQuote pf tv matrix s)) = stored_distances s"
    and "\<exists>q. shown_quote (snd (handleCreateQuote pf tv matrix s)) = Some q \<and> distance q = c"
  using c valid_formD [OF v]
  by (simp_all add: handleCreateQuote_def handler_def Let_def)

lemma sample_valid: "valid_form parse_weight sample_home"
  by (simp add: valid_form_def sample_home_def parse_weight_def parse_digits_def
        digit_of_def ymd_number_def)

lemma sample_fields:
  "form_origin sample_home = ''Toronto''"
  "form_destination sample_home = ''Montreal''"
  "stored_distances sample_home k = None"
  by (simp_all add: sample_home_def)

text \<open>
  C7, at a failing lookup. When the Distance Matrix request fails, the handler makes
  that one request and answers with status 400 and the message of the case without a
  route, the very answer it gives for \<open>ZERO_RESULTS\<close>; the page shows that message
  and leaves the ledger and the stored distances as they were.
\<close>

theorem lookup_failure_answered_as_no_route:
  "handler (always Rejected) sample_request
     = ([(''Toronto'', ''Montreal'')],
        ErrorJson 400 ''No route between Toronto and Montreal available.'')
   \<and> handler (always ZERO_RESULTS) sample_request
     = ([(''Toronto'', ''Montreal'')],
        ErrorJson 400 ''No route between Toronto and Montreal available.'')
   \<and> handleCreateQuote parse_weight ymd_number (always Rejected) sample_home
     = ([(''Toronto'', ''Montreal'')],
        sample_home\<lparr>errorMessage := ''No route between Toronto and Montreal available.''\<rparr>)"
  by (simp add: handleCreateQuote_def handler_def getDistance_def sample_request_def
        sample_home_def always_def cache_key_def parse_weight_def parse_digits_def
        digit_of_def ymd_number_def Let_def)

theorem lookup_failure_answered_as_no_route_witness:
  "snd (handler (always Rejected) sample_request) = snd (handler (always ZERO_RESULTS) sample_request)
   \<and> length (fst (handler (always Rejected) sample_request)) = 1
   \<and> stored_distances (snd (handleCreateQuote parse_weight ymd_number (always Rejected) sample_home))
       = stored_distances sample_home
   \<and> quotes (snd (handleCreateQuote parse_weight ymd_number (always Rejected) sample_home))
       = quotes sample_home"
  using lookup_failure_answered_as_no_route by simp

text \<open>
  C8, as amended. \<open>handleCreateQuote\<close> checks that every field is filled in, that the
  weight is above zero and that the selected places are the texts of the inputs. Each
  failed check ends the call with its error message, with no request made and with
  nothing but the error message changed; whenever the form is not valid, no distance
  request is made, an error message is set, and the ledger, the stored ledger and the
  stored distances stay as they were. The handler checks only that the five fields
  are truthy: a request with a falsy field is answered with status 400 before any
  distance request, but a request whose fields are truthy passes whatever the sign of
  its weight, so that with no distance supplied the handler makes the distance
  request and, when the service answers in metres, returns a quote of that weight.
\<close>

theorem validation_errors_before_lookup:
  "(form_origin s = [] \<or> form_destination s = [] \<or> form_equipmentType s = []
      \<or> form_weight s = [] \<or> form_pickupDate s = []
     \<longrightarrow> handleCreateQuote parseFloat timeValue matrix s
           = ([], s\<lparr>errorMessage := ''Please fill in all required fields.''\<rparr>))
   \<and> (form_origin s \<noteq> [] \<and> form_destination s \<noteq> [] \<and> form_equipmentType s \<noteq> []
      \<and> form_weight s \<noteq> [] \<and> form_pickupDate s \<noteq> []
      \<and> jle (parseFloat (form_weight s)) (Num 0)
     \<longrightarrow> handleCreateQuote parseFloat timeValue matrix s
           = ([], s\<lparr>errorMessage := ''Invalid weight value.''\<rparr>))
   \<and> (form_origin s \<noteq> [] \<and> form_destination s \<noteq> [] \<and> form_equipmentType s \<noteq> []
      \<and> form_weight s \<noteq> [] \<and> form_pickupDate s \<noteq> []
      \<and> \<not> jle (parseFloat (form_weight s)) (Num 0)
      \<and> (form_origin s \<noteq> originInputValue s \<or> form_destination s \<noteq> destinationInputValue s)
     \<longrightarrow> handleCreateQuote parseFloat timeValue matrix s
           = ([], s\<lparr>errorMessage := ''Invalid locations, please select from dropdown.''\<rparr>))
   \<and> (\<not> valid_form parseFloat s
     \<longrightarrow> fst (handleCreateQuote parseFloat timeValue matrix s) = []
         \<and> errorMessage (snd (handleCreateQuote parseFloat timeValue matrix s)) \<noteq> []
         \<and> quotes (snd (handleCreateQuote parseFloat timeValue matrix s)) = quotes s
         \<and> stored_quotes (snd (handleCreateQuote parseFloat timeValue matrix s)) = stored_quotes s
         \<and> stored_distances (snd (handleCreateQuote parseFloat timeValue matrix s)) = stored_distances s)
   \<and> (req_method req = ''POST''
      \<and> (req_origin req = [] \<or> req_destination req = [] \<or> req_equipmentType req = []
          \<or> \<not> truthy (req_weight req) \<or> req_pickupDate req = [])
     \<longrightarrow> handler matrix req = ([], ErrorJson 400 ''All fields are required.''))
   \<and> (req_method req = ''POST'' \<and> req_origin req \<noteq> [] \<and> req_destination req \<noteq> []
      \<and> req_equipmentType req \<noteq> [] \<and> truthy (req_weight req) \<and> req_pickupDate req \<noteq> []
      \<and> req_cacheDistance req = None
     \<longrightarrow> fst (handler matrix req) = [(req_origin req, req_destination req)]
         \<and> (\<forall>metres. matrix (req_origin req) (req_destination req) = Metres metres
               \<longrightarrow> map_option weight (quote_of (snd (handler matrix req))) = Some (req_weight req)))"
proof -
  have invalid: "fst (handleCreateQuote parseFloat timeValue matrix s) = []
         \<and> errorMessage (snd (handleCreateQuote parseFloat timeValue matrix s)) \<noteq> []
         \<and> quotes (snd (handleCreateQuote parseFloat timeValue matrix s)) = quotes s
         \<and> stored_quotes (snd (handleCreateQuote parseFloat timeValue matrix s)) = stored_quotes s
         \<and> stored_distances (snd (handleCreateQuote parseFloat timeValue matrix s)) = stored_distances s"
    if "\<not> valid_form parseFloat s"
  proof (cases "jgt (parseFloat (form_weight s)) (Num 0)")
    case True
    with that show ?thesis
      using positive_weight [OF True]
      by (auto simp: valid_form_def handleCreateQuote_def Let_def)
  next
    case False
    then have "jle (parseFloat (form_weight s)) (Num 0) \<or> \<not> truthy (parseFloat (form_weight s))"
      by (rule weight_not_positive)
    then show ?thesis
      by (auto simp: handleCreateQuote_def handler_def Let_def)
  qed
  have server: "handler matrix req = ([], ErrorJson 400 ''All fields are required.'')"
    if "req_method req = ''POST''"
      and "req_origin req = [] \<or> req_destination req = [] \<or> req_equipmentType req = []
          \<or> \<not> truthy (req_weight req) \<or> req_pickupDate req = []"
    using that by (auto simp: handler_def)
  have lookup: "fst (handler matrix req) = [(req_origin req, req_destination req)]
         \<and> (\<forall>metres. matrix (req_origin req) (req_destination req) = Metres metres
               \<longrightarrow> map_option weight (quote_of (snd (handler matrix req))) = Some (req_weight req))"
    if "req_method req = ''POST''" and "req_origin req \<noteq> []" and "req_destination req \<noteq> []"
      and "req_equipmentType req \<noteq> []" and "truthy (req_weight req)" and "req_pickupDate req \<noteq> []"
      and "req_cacheDistance req = None"
    using that by (auto simp: handler_def getDistance_def Let_def split: matrix_reply.splits)
  have page: "(form_origin s = [] \<or> form_destination s = [] \<or> form_equipmentType s = []
      \<or> form_weight s = [] \<or> form_pickupDate s = []
     \<longrightarrow> handleCreateQuote parseFloat timeValue matrix s
           = ([], s\<lparr>errorMessage := ''Please fill in all required fields.''\<rparr>))
   \<and> (form_origin s \<noteq> [] \<and> form_destination s \<noteq> [] \<and> form_equipmentType s \<noteq> []
      \<and> form_weight s \<noteq> [] \<and> form_pickupDate s \<noteq> []
      \<and> jle (parseFloat (form_weight s)) (Num 0)
     \<longrightarrow> handleCreateQuote parseFloat timeValue matrix s
           = ([], s\<lparr>errorMessage := ''Invalid weight value.''\<rparr>))
   \<and> (form_origin s \<noteq> [] \<and> form_destination s \<noteq> [] \<and> form_equipmentType s \<noteq> []
      \<and> form_weight s \<noteq> [] \<and> form_pickupDate s \<noteq> []
      \<and> \<not> jle (parseFloat (form_weight s)) (Num 0)
      \<and> (form_origin s \<noteq> originInputValue s \<or> form_destination s \<noteq> destinationInputValue s)
     \<longrightarrow> handleCreateQuote parseFloat timeValue matrix s
           = ([], s\<lparr>errorMessage := ''Invalid locations, please select from dropdown.''\<rparr>))"
    by (auto simp: handleCreateQuote_def Let_def)
  from page invalid server lookup show ?thesis
    by blast
qed

theorem validation_errors_before_lookup_witness:
  "form_pickupDate (sample_home\<lparr>form_pickupDate := []\<rparr>) = []
   \<and> form_origin (sample_home\<lparr>originInputValue := ''Tor''\<rparr>)
       \<noteq> originInputValue (sample_home\<lparr>originInputValue := ''Tor''\<rparr>)
   \<and> req_method (sample_request\<lparr>req_weight := Num 0\<rparr>) = ''POST''
   \<and> \<not> truthy (req_weight (sample_request\<lparr>req_weight := Num 0\<rparr>))
   \<and> handleCreateQuote parse_weight ymd_number (always (Metres 1000)) (sample_home\<lparr>form_pickupDate := []\<rparr>)
     = ([], sample_home\<lparr>form_pickupDate := [], errorMessage := ''Please fill in all required fields.''\<rparr>)
   \<and> jle (parse_weight ''-20'') (Num 0)
   \<and> handleCreateQuote parse_weight ymd_number (always (Metres 1000)) (sample_home\<lparr>form_weight := ''-20''\<rparr>)
     = ([], sample_home\<lparr>form_weight := ''-20'', errorMessage := ''Invalid weight value.''\<rparr>)
   \<and> handleCreateQuote parse_weight ymd_number (always (Metres 1000)) (sample_home\<lparr>originInputValue := ''Tor''\<rparr>)
     = ([], sample_home\<lparr>originInputValue := ''Tor'',
                        errorMessage := ''Invalid locations, please select from dropdown.''\<rparr>)
   \<and> \<not> valid_form parse_weight (sample_home\<lparr>form_weight := ''-20''\<rparr>)
   \<and> stored_distances (snd (handleCreateQuote parse_weight ymd_number (always (Metres 1000))
                              (sample_home\<lparr>form_weight := ''-20''\<rparr>)))
       = stored_distances sample_home
   \<and> handler (always (Metres 1000)) (sample_request\<lparr>req_weight := Num 0\<rparr>)
       = ([], ErrorJson 400 ''All fields are required.'')
   \<and> truthy (req_weight (sample_request\<lparr>req_weight := Num (- 20)\<rparr>))
   \<and> req_cacheDistance (sample_request\<lparr>req_weight := Num (- 20)\<rparr>) = None
   \<and> always (Metres 1000) ''Toronto'' ''Montreal'' = Metres 1000
   \<and> fst (handler (always (Metres 1000)) (sample_request\<lparr>req_weight := Num (- 20)\<rparr>))
       = [(''Toronto'', ''Montreal'')]
   \<and> map_option weight (quote_of (snd (handler (always (Metres 1000))
                                           (sample_request\<lparr>req_weight := Num (- 20)\<rparr>))))
       = Some (Num (- 20))"
  using validation_errors_before_lookup [of "sample_home\<lparr>form_pickupDate := []\<rparr>" parse_weight
          ymd_number "always (Metres 1000)" "sample_request\<lparr>req_weight := Num 0\<rparr>"]
        validation_errors_before_lookup [of "sample_home\<lparr>form_weight := ''-20''\<rparr>" parse_weight
          ymd_number "always (Metres 1000)" "sample_request\<lparr>req_weight := Num 0\<rparr>"]
        validation_errors_before_lookup [of "sample_home\<lparr>originInputValue := ''Tor''\<rparr>" parse_weight
          ymd_number "always (Metres 1000)" "sample_request\<lparr>req_weight := Num (- 20)\<rparr>"]
  by (simp add: sample_home_def sample_request_def valid_form_def parse_weight_def parse_digits_def
        digit_of_def ymd_number_def always_def)

text \<open>
  C8 as stated fails at the handler: a request with the weight -5, which is not above
  zero, is not answered with an error; the handler makes the distance request and
  answers with a quote of that weight.
\<close>

theorem handler_negative_weight_counterexample:
  "\<not> jgt (req_weight (sample_request\<lparr>req_weight := Num (- 5)\<rparr>)) (Num 0)
   \<and> fst (handler (always (Metres 100000)) (sample_request\<lparr>req_weight := Num (- 5)\<rparr>))
       = [(''Toronto'', ''Montreal'')]
   \<and> map_option weight (quote_of (snd (handler (always (Metres 100000))
                                           (sample_request\<lparr>req_weight := Num (- 5)\<rparr>))))
       = Some (Num (- 5))
   \<and> map_option distance (quote_of (snd (handler (always (Metres 100000))
                                             (sample_request\<lparr>req_weight := Num (- 5)\<rparr>))))
       = Some (Num 100)"
  by (simp add: handler_def getDistance_def sample_request_def always_def Let_def)

text \<open>
  C10. When a valid form has no stored distance for its pair and the service answers
  a distance of 0 metres, the call makes that one request, shows a quote with distance
  0, and leaves the stored distances exactly as they were (neither key is written);
  creating a quote for the same pair again makes the request again.
\<close>

theorem zero_distance_not_cached:
  assumes "valid_form parseFloat s"
    and "stored_distances s (cache_key (form_origin s) (form_destination s)) = None"
    and "matrix (form_origin s) (form_destination s) = Metres 0"
  shows "fst (handleCreateQuote parseFloat timeValue matrix s) = [(form_origin s, form_destination s)]
    \<and> (\<exists>q. shown_quote (snd (handleCreateQuote parseFloat timeValue matrix s)) = Some q
            \<and> distance q = Num 0)
    \<and> stored_distances (snd (handleCreateQuote parseFloat timeValue matrix s)) = stored_distances s
    \<and> fst (handleCreateQuote parseFloat timeValue matrix
              (snd (handleCreateQuote parseFloat timeValue matrix s)))
        = [(form_origin s, form_destination s)]"
proof -
  let ?s' = "snd (handleCreateQuote parseFloat timeValue matrix s)"
  note first = create_with_lookup [where matrix = matrix and tv = timeValue, OF assms]
  have cache: "stored_distances ?s' = stored_distances s"
    using first(2) by simp
  have "fst (handleCreateQuote parseFloat timeValue matrix ?s') = [(form_origin ?s', form_destination ?s')]"
    by (rule create_with_lookup(1) [where matrix = matrix and m = 0, OF first(4)])
      (simp_all add: cache first(5,6) assms)
  then have again: "fst (handleCreateQuote parseFloat timeValue matrix ?s') = [(form_origin s, form_destination s)]"
    by (simp add: first(5,6))
  show ?thesis
    using first(1) first(3) cache again by simp
qed

theorem zero_distance_not_cached_witness:
  "valid_form parse_weight sample_home
   \<and> stored_distances sample_home (cache_key ''Toronto'' ''Montreal'') = None
   \<and> always (Metres 0) ''Toronto'' ''Montreal'' = Metres 0
   \<and> fst (handleCreateQuote parse_weight ymd_number (always (Metres 0)) sample_home)
        = [(''Toronto'', ''Montreal'')]
   \<and> stored_distances (snd (handleCreateQuote parse_weight ymd_number (always (Metres 0)) sample_home))
        = stored_distances sample_home
   \<and> fst (handleCreateQuote parse_weight ymd_number (always (Metres 0))
            (snd (handleCreateQuote parse_weight ymd_number (always (Metres 0)) sample_home)))
        = [(''Toronto'', ''Montreal'')]"
  using zero_distance_not_cached [of parse_weight sample_home "always (Metres 0)" ymd_number]
    sample_valid
  by (simp add: sample_fields always_def)

text \<open>
  C6, as amended. When a valid form has no stored distance for its pair (A, B) and
  the service answers a distance other than 0 metres, the call makes one request and
  stores the distance in kilometres under both keys, A-B and B-A; a following call
  for (B, A) makes no request and its quote has the identical distance.
\<close>

theorem nonzero_distance_cached_both_ways:
  assumes "valid_form parseFloat s"
    and "stored_distances s (cache_key (form_origin s) (form_destination s)) = None"
    and "matrix (form_origin s) (form_destination s) = Metres m"
    and "m \<noteq> 0"
    and "s1 = snd (handleCreateQuote parseFloat timeValue matrix s)"
  shows "fst (handleCreateQuote parseFloat timeValue matrix s) = [(form_origin s, form_destination s)]
    \<and> (\<exists>q. shown_quote s1 = Some q \<and> distance q = Num (m / 1000))
    \<and> stored_distances s1 (cache_key (form_origin s) (form_destination s)) = Some (Num (m / 1000))
    \<and> stored_distances s1 (cache_key (form_destination s) (form_origin s)) = Some (Num (m / 1000))
    \<and> fst (handleCreateQuote parseFloat timeValue matrix' (reverse_route s1)) = []
    \<and> (\<exists>q. shown_quote (snd (handleCreateQuote parseFloat timeValue matrix' (reverse_route s1))) = Some q
            \<and> distance q = Num (m / 1000))"
proof -
  note first = create_with_lookup [where matrix = matrix and tv = timeValue, OF assms(1-3), folded assms(5)]
  have cache: "stored_distances s1 =
      (stored_distances s)
        (cache_key (form_origin s) (form_destination s) \<mapsto> Num (m / 1000),
         cache_key (form_destination s) (form_origin s) \<mapsto> Num (m / 1000))"
    using first(2) assms(4) by simp
  have v2: "valid_form parseFloat (reverse_route s1)"
    using valid_formD [OF first(4)] by (simp add: valid_form_def reverse_route_def)
  have hit: "stored_distances (reverse_route s1)
               (cache_key (form_origin (reverse_route s1)) (form_destination (reverse_route s1)))
             = Some (Num (m / 1000))"
    by (simp add: reverse_route_def cache first(5,6))
  note second = create_with_cache [where matrix = matrix' and tv = timeValue, OF v2 hit]
  show ?thesis
    using first(1) first(3) second(1) second(3) by (simp add: cache)
qed

theorem nonzero_distance_cached_both_ways_witness:
  "valid_form parse_weight sample_home
   \<and> stored_distances sample_home (cache_key ''Toronto'' ''Montreal'') = None
   \<and> always (Metres 541000) ''Toronto'' ''Montreal'' = Metres 541000 \<and> (541000::real) \<noteq> 0
   \<and> fst (handleCreateQuote parse_weight ymd_number (always (Metres 541000)) sample_home)
        = [(''Toronto'', ''Montreal'')]
   \<and> stored_distances (snd (handleCreateQuote parse_weight ymd_number (always (Metres 541000)) sample_home))
        ''Toronto-Montreal'' = Some (Num 541)
   \<and> stored_distances (snd (handleCreateQuote parse_weight ymd_number (always (Metres 541000)) sample_home))
        ''Montreal-Toronto'' = Some (Num 541)
   \<and> fst (handleCreateQuote parse_weight ymd_number (always Rejected)
            (reverse_route (snd (handleCreateQuote parse_weight ymd_number (always (Metres 541000)) sample_home))))
        = []"
  using nonzero_distance_cached_both_ways [of parse_weight sample_home "always (Metres 541000)" 541000
      "snd (handleCreateQuote parse_weight ymd_number (always (Metres 541000)) sample_home)"
      ymd_number "always Rejected"]
    sample_valid
  by (simp add: sample_fields always_def cache_key_def)

text \<open>
  C6 as stated fails when the service answers 0 metres: the call makes its request
  and shows a quote, yet no distance is stored under B-A, and the following call for
  (B, A) makes a request of its own.
\<close>

theorem zero_distance_counterexample:
  "fst (handleCreateQuote parse_weight ymd_number (always (Metres 0)) sample_home)
        = [(''Toronto'', ''Montreal'')]
   \<and> shown_quote (snd (handleCreateQuote parse_weight ymd_number (always (Metres 0)) sample_home)) \<noteq> None
   \<and> stored_distances (snd (handleCreateQuote parse_weight ymd_number (always (Metres 0)) sample_home))
        ''Montreal-Toronto'' = None
   \<and> fst (handleCreateQuote parse_weight ymd_number (always (Metres 0))
            (reverse_route (snd (handleCreateQuote parse_weight ymd_number (always (Metres 0)) sample_home))))
        = [(''Montreal'', ''Toronto'')]"
proof -
  let ?s1 = "snd (handleCreateQuote parse_weight ymd_number (always (Metres 0)) sample_home)"
  have m: "always (Metres 0) (form_origin sample_home) (form_destination sample_home) = Metres 0"
    by (simp add: always_def)
  note first = create_with_lookup [where matrix = "always (Metres 0)" and tv = ymd_number,
      OF sample_valid sample_fields(3) m]
  have v2: "valid_form parse_weight (reverse_route ?s1)"
    using valid_formD [OF first(4)] by (simp add: valid_form_def reverse_route_def)
  have c2: "stored_distances (reverse_route ?s1)
              (cache_key (form_origin (reverse_route ?s1)) (form_destination (reverse_route ?s1))) = None"
    using first(2) by (simp add: reverse_route_def sample_fields)
  have m2: "always (Metres 0) (form_origin (reverse_route ?s1)) (form_destination (reverse_route ?s1)) = Metres 0"
    by (simp add: always_def)
  note second = create_with_lookup [where matrix = "always (Metres 0)" and tv = ymd_number,
      OF v2 c2 m2]
  have r: "form_origin (reverse_route ?s1) = ''Montreal''" "form_destination (reverse_route ?s1) = ''Toronto''"
    using first(5,6) by (simp_all add: reverse_route_def sample_fields)
  show ?thesis
    using first(1) first(2) first(3) second(1) by (auto simp: sample_fields r)
qed

section \<open>Facts about the ledger\<close>

lemma insert_cmp_sortQuotes:
  "insert_cmp (sortQuotes tv) x ys = insort_key (\<lambda>q. tv (pickupDate q)) x ys"
  by (induction ys) (simp_all add: sortQuotes_def)

lemma array_sort_sortQuotes:
  "array_sort (sortQuotes tv) xs = sort_key (\<lambda>q. tv (pickupDate q)) xs"
proof -
  have "insert_cmp (sortQuotes tv) = insort_key (\<lambda>q. tv (pickupDate q))"
    by (intro ext) (rule insert_cmp_sortQuotes)
  then show ?thesis
    by (simp add: array_sort_def sort_key_def)
qed

lemma sort_key_append_sorted:
  "sort_key f (xs @ sort_key f ys) = sort_key f (xs @ ys)"
proof -
  have "sort_key f (xs @ zs) = foldr (insort_key f) xs (sort_key f zs)" for zs
    by (simp add: sort_key_def)
  then show ?thesis
    by (simp add: sort_key_id_if_sorted)
qed

text \<open>Inserting one quote after the other sorts the reversed sequence of insertions.\<close>

lemma fold_updatedQuotes:
  "sorted (map (\<lambda>q. tv (pickupDate q)) l)
     \<Longrightarrow> fold (updatedQuotes tv) qs l = sort_key (\<lambda>q. tv (pickupDate q)) (rev qs @ l)"
proof (induction qs arbitrary: l)
  case Nil
  then show ?case by (simp add: sort_key_id_if_sorted)
next
  case (Cons q qs)
  let ?f = "\<lambda>q. tv (pickupDate q)"
  have "fold (updatedQuotes tv) (q # qs) l = fold (updatedQuotes tv) qs (sort_key ?f (q # l))"
    by (simp add: updatedQuotes_def array_sort_sortQuotes)
  also have "\<dots> = sort_key ?f (rev qs @ sort_key ?f (q # l))"
    by (rule Cons.IH) (rule sorted_sort_key)
  also have "\<dots> = sort_key ?f (rev qs @ q # l)"
    by (rule sort_key_append_sorted)
  finally show ?case by simp
qed

lemma loaded_ledger_sorted:
  "quotes s = [] \<Longrightarrow> sorted (map (\<lambda>q. tv (pickupDate q)) (quotes (loadQuotes tv s)))"
  by (simp add: loadQuotes_def array_sort_sortQuotes split: option.splits)

lemma sample_dates:
  "ymd_number ''2025-01-01'' = 20250101" "ymd_number ''2025-01-02'' = 20250102"
  "ymd_number ''2024-12-31'' = 20241231"
  by (simp_all add: ymd_number_def digit_of_def)

lemma sample_quote_dates:
  "pickupDate quote_A = ''2025-01-01''" "pickupDate quote_B = ''2025-01-01''"
  "pickupDate quote_C = ''2025-01-02''" "pickupDate quote_D = ''2024-12-31''"
  by (simp_all add: quote_A_def quote_B_def quote_C_def quote_D_def)

text \<open>
  C2, as amended. After any sequence of insertions into a sorted ledger (the empty
  one, or the one loaded and sorted at the start), the ledger holds the old and the
  inserted quotes sorted ascending by the time value of \<open>pickupDate\<close>; when the dates
  are distinct, the order does not depend on the order of insertion; and the quotes
  of one date appear in reverse order of insertion, the later inserted first, all of
  them before the quotes of that date the ledger held at the start.
\<close>

theorem ledger_sorted_ties_newest_first:
  assumes "sorted (map (\<lambda>q. tv (pickupDate q)) l)"
  shows "sorted (map (\<lambda>q. tv (pickupDate q)) (fold (updatedQuotes tv) qs l))
   \<and> mset (fold (updatedQuotes tv) qs l) = mset qs + mset l
   \<and> (distinct (map (\<lambda>q. tv (pickupDate q)) (qs @ l)) \<and> mset qs' = mset qs
        \<longrightarrow> fold (updatedQuotes tv) qs' l = fold (updatedQuotes tv) qs l)
   \<and> (\<forall>t. filter (\<lambda>q. tv (pickupDate q) = t) (fold (updatedQuotes tv) qs l)
            = rev (filter (\<lambda>q. tv (pickupDate q) = t) qs) @ filter (\<lambda>q. tv (pickupDate q) = t) l)"
proof -
  let ?f = "\<lambda>q. tv (pickupDate q)"
  have eq: "fold (updatedQuotes tv) xs l = sort_key ?f (rev xs @ l)" for xs
    using assms by (rule fold_updatedQuotes)
  have indep: "fold (updatedQuotes tv) qs' l = fold (updatedQuotes tv) qs l"
    if d: "distinct (map ?f (qs @ l))" and m: "mset qs' = mset qs"
  proof -
    have "set qs' = set qs"
      using m by (rule mset_eq_setD)
    moreover have "inj_on ?f (set (qs @ l))"
      using d by (simp only: distinct_map)
    ultimately have inj: "inj_on ?f (set (rev qs' @ l))"
      by simp
    have ms: "mset (rev qs' @ l) = mset (sort_key ?f (rev qs @ l))"
      using m by simp
    have "sort_key ?f (rev qs' @ l) = sort_key ?f (rev qs @ l)"
      using ms inj by (rule sort_key_inj_key_eq) (rule sorted_sort_key)
    then show ?thesis by (simp add: eq)
  qed
  have stable: "filter (\<lambda>q. ?f q = t) (fold (updatedQuotes tv) qs l)
      = rev (filter (\<lambda>q. ?f q = t) qs) @ filter (\<lambda>q. ?f q = t) l" for t
    by (simp add: eq sort_key_stable rev_filter)
  show ?thesis
    using indep stable by (simp add: eq)
qed

theorem ledger_sorted_ties_newest_first_witness:
  "sorted (map (\<lambda>q. ymd_number (pickupDate q)) [quote_A])
   \<and> distinct (map (\<lambda>q. ymd_number (pickupDate q)) ([quote_C, quote_D] @ [quote_A]))
   \<and> mset [quote_D, quote_C] = mset [quote_C, quote_D]
   \<and> fold (updatedQuotes ymd_number) [quote_C, quote_D] [quote_A] = [quote_D, quote_A, quote_C]
   \<and> fold (updatedQuotes ymd_number) [quote_D, quote_C] [quote_A] = [quote_D, quote_A, quote_C]"
  using ledger_sorted_ties_newest_first [of ymd_number "[quote_A]" "[quote_C, quote_D]" "[quote_D, quote_C]"]
  by (simp add: updatedQuotes_def array_sort_def sortQuotes_def sample_quote_dates sample_dates)

text \<open>
  C2 as stated fails for two quotes of one date: \<open>quote_A\<close> inserted first and
  \<open>quote_B\<close> second leave the ledger with \<open>quote_B\<close> first.
\<close>

theorem same_date_counterexample:
  "pickupDate quote_A = pickupDate quote_B \<and> quote_A \<noteq> quote_B
   \<and> fold (updatedQuotes ymd_number) [quote_A, quote_B] [] = [quote_B, quote_A]"
  by (simp add: updatedQuotes_def array_sort_def sortQuotes_def sample_quote_dates)
    (simp add: quote_A_def quote_B_def)

section \<open>Facts about the history view\<close>

lemma sample_quote_fields:
  "origin quote_A = ''Toronto''" "origin quote_B = ''Montreal''"
  "destination quote_A = ''Ottawa''" "destination quote_B = ''Ottawa''"
  "equipmentType quote_A = ''dry_van''" "equipmentType quote_B = ''dry_van''"
  by (simp_all add: quote_A_def quote_B_def)

lemma sample_lower:
  "toLowerCase ''Toronto'' = ''toronto''" "toLowerCase ''Montreal'' = ''montreal''"
  "toLowerCase ''mont'' = ''mont''"
  by (simp_all add: toLowerCase_def lower_char_def)

lemma sample_ledger:
  "quotes sample_home = [quote_A, quote_B]"
  "stored_quotes sample_home = Some [quote_A, quote_B]"
  "filters sample_home = \<lparr> filter_origin = ''mont'', filter_equipment = [], filter_destination = [] \<rparr>"
  by (simp_all add: sample_home_def)

lemma sample_filtered: "filteredQuotes sample_home = [quote_B]"
  by (simp add: filteredQuotes_def sample_ledger sample_quote_fields sample_lower)

lemma no_filter_all_quotes:
  "filters s = \<lparr> filter_origin = [], filter_equipment = [], filter_destination = [] \<rparr>
     \<Longrightarrow> filteredQuotes s = quotes s"
  by (simp add: filteredQuotes_def)

lemma slice_nth:
  assumes "0 \<le> a" and "0 \<le> i" and "nat i < length (slice a b xs)"
  shows "slice a b xs ! nat i = xs ! nat (i + a)" and "nat (i + a) < length xs"
proof -
  let ?len = "int (length xs)"
  have k: "relative_index ?len a = min a ?len"
    using assms(1) by (simp add: relative_index_def)
  have len: "length (slice a b xs) \<le> length xs - nat (min a ?len)"
    by (simp add: slice_def Let_def k)
  with assms(3) have lt: "nat i < length xs - nat (min a ?len)"
    by simp
  then have a: "a < ?len"
    by (cases "a < ?len") (simp_all add: min_def)
  then have m: "min a ?len = a"
    by simp
  from lt m assms(1,2) show "nat (i + a) < length xs"
    by (simp add: nat_add_distrib)
  have "slice a b xs ! nat i = drop (nat a) xs ! nat i"
    using assms(3) by (simp add: slice_def Let_def k m)
  also have "\<dots> = xs ! (nat a + nat i)"
    using lt m by simp
  also have "nat a + nat i = nat (i + a)"
    using assms(1,2) by (simp add: nat_add_distrib)
  finally show "slice a b xs ! nat i = xs ! nat (i + a)" .
qed

lemma splice1_inside:
  assumes "0 \<le> k" and "nat k < length xs"
  shows "splice1 k xs = take (nat k) xs @ drop (Suc (nat k)) xs"
proof -
  have "relative_index (int (length xs)) k = k"
    using assms by (simp add: relative_index_def)
  moreover have "min 1 (int (length xs) - k) = 1"
    using assms by simp
  moreover have "nat (k + 1) = Suc (nat k)"
    using assms(1) by simp
  ultimately show ?thesis
    by (simp add: splice1_def Let_def)
qed

text \<open>With no filter set, the delete button removes the quote of its card.\<close>

lemma unfiltered_delete_removes_shown_quote:
  assumes "filters s = \<lparr> filter_origin = [], filter_equipment = [], filter_destination = [] \<rparr>"
    and "1 \<le> currentPage h" and "0 \<le> i" and "nat i < length (currentQuotes s h)"
  shows "currentQuotes s h ! nat i = quotes s ! nat (i + startIndex h)"
    and "nat (i + startIndex h) < length (quotes s)"
    and "quotes (fst (delete_onClick i (s, h)))
           = take (nat (i + startIndex h)) (quotes s) @ drop (Suc (nat (i + startIndex h))) (quotes s)"
    and "stored_quotes (fst (delete_onClick i (s, h))) = Some (quotes (fst (delete_onClick i (s, h))))"
proof -
  have start: "0 \<le> startIndex h"
    using assms(2) by (simp add: startIndex_def itemsPerPage_def)
  have cur: "currentQuotes s h = slice (startIndex h) (endIndex h) (quotes s)"
    by (simp add: currentQuotes_def no_filter_all_quotes [OF assms(1)])
  show nth: "currentQuotes s h ! nat i = quotes s ! nat (i + startIndex h)"
    using slice_nth(1) [OF start assms(3)] assms(4) by (simp add: cur)
  show lt: "nat (i + startIndex h) < length (quotes s)"
    using slice_nth(2) [OF start assms(3)] assms(4) by (simp add: cur)
  have k: "0 \<le> i + startIndex h"
    using start assms(3) by simp
  show "quotes (fst (delete_onClick i (s, h)))
           = take (nat (i + startIndex h)) (quotes s) @ drop (Suc (nat (i + startIndex h))) (quotes s)"
    using splice1_inside [OF k lt] by (simp add: delete_onClick_def deleteQuote_def Let_def)
  show "stored_quotes (fst (delete_onClick i (s, h))) = Some (quotes (fst (delete_onClick i (s, h))))"
    by (simp add: delete_onClick_def deleteQuote_def Let_def)
qed

text \<open>
  C1, at a filtered view. The ledger holds \<open>quote_A\<close> and \<open>quote_B\<close>, and the origin
  filter \<open>mont\<close> leaves \<open>quote_B\<close> as the only quote of the page. The delete button of
  that card removes \<open>quote_A\<close> from the ledger, and the ledger that is persisted still
  holds \<open>quote_B\<close>.
\<close>

theorem filtered_delete_removes_other_quote:
  "quotes sample_home = [quote_A, quote_B]
   \<and> currentQuotes sample_home sample_history = [quote_B]
   \<and> quotes (fst (delete_onClick 0 (sample_home, sample_history))) = [quote_B]
   \<and> stored_quotes (fst (delete_onClick 0 (sample_home, sample_history))) = Some [quote_B]"
  by (simp add: delete_onClick_def deleteQuote_def currentQuotes_def sample_filtered sample_ledger
        splice1_def slice_def relative_index_def startIndex_def endIndex_def itemsPerPage_def
        sample_history_def Let_def)

end
